theory Spec2Isabelle
  imports Complex_Main
begin

section \<open>Game Titles Extractor: the scan-and-report pipeline of gameTitleExtractor.py\<close>

text \<open>
  The program is a tkinter application. Its widgets are presentation only; what is
  modelled is the data held by \<^verbatim>\<open>GameTitlesExtractor\<close> (the console registry, the
  selected console, the output records, the log pane, the progress bar value, the two
  outcome buttons) and the methods that change it. Every method takes the state and
  returns the new one. What the methods ask of the platform (does a path exist, what
  does a directory hold, does opening or writing a file fail, what is today's date) is
  answered by an environment record.
\<close>

subsection \<open>Python values\<close>

text \<open>
  The exceptions the two \<^verbatim>\<open>try\<close> blocks distinguish, in the order of their
  \<^verbatim>\<open>except\<close> clauses. \<open>OtherError\<close> carries \<^verbatim>\<open>str(e)\<close>.
\<close>

datatype io_error = FileNotFoundError | PermissionError | OtherError string

text \<open>A directory entry has a name and a type; \<^verbatim>\<open>os.listdir\<close> returns the names only.\<close>

datatype entry_kind = RegularFile | Directory

definition newline :: char where
  "newline = CHR 0x0A"

definition quoted :: "string \<Rightarrow> string" where
  "quoted s = [CHR 0x27] @ s @ [CHR 0x27]"

text \<open>\<^verbatim>\<open>s.startswith(p)\<close> and \<^verbatim>\<open>s.endswith(p)\<close>: exact, case-sensitive comparison.\<close>

definition startswith :: "string \<Rightarrow> string \<Rightarrow> bool" where
  "startswith s p = (take (length p) s = p)"

definition endswith :: "string \<Rightarrow> string \<Rightarrow> bool" where
  "endswith s p = (length p \<le> length s \<and> drop (length s - length p) s = p)"

text \<open>
  A Python \<^verbatim>\<open>dict\<close>: keys are unique and iteration follows the order of first
  insertion. \<^verbatim>\<open>d[k] = v\<close> replaces the value in place when the key is present and
  appends the pair otherwise; \<^verbatim>\<open>d.get(k)\<close> is \<open>None\<close> for a missing key.
\<close>

fun dict_get :: "('k \<times> 'v) list \<Rightarrow> 'k \<Rightarrow> 'v option" where
  "dict_get [] k = None"
| "dict_get ((k', v') # d) k = (if k' = k then Some v' else dict_get d k)"

fun dict_set :: "('k \<times> 'v) list \<Rightarrow> 'k \<Rightarrow> 'v \<Rightarrow> ('k \<times> 'v) list" where
  "dict_set [] k v = [(k, v)]"
| "dict_set ((k', v') # d) k v =
     (if k' = k then (k, v) # d else (k', v') # dict_set d k v)"

text \<open>Truth value of \<^verbatim>\<open>None\<close> or a string: only a non-empty string is true.\<close>

fun truthy :: "string option \<Rightarrow> bool" where
  "truthy None = False"
| "truthy (Some s) = (s \<noteq> [])"

text \<open>\<^verbatim>\<open>f"{x}"\<close> for \<^verbatim>\<open>x\<close> a string or \<^verbatim>\<open>None\<close>.\<close>

fun format_opt :: "string option \<Rightarrow> string" where
  "format_opt None = ''None''"
| "format_opt (Some s) = s"

subsection \<open>The platform\<close>

text \<open>
  \<^item> \<open>fs_exists p\<close>: the path \<open>p\<close> (not the empty string) names something on disk;
  \<^item> \<open>fs_entries p\<close>: the immediate entries of directory \<open>p\<close> in the order the platform
    lists them, or the exception \<^verbatim>\<open>os.listdir(p)\<close> raises;
  \<^item> \<open>open_error p\<close>: the exception \<^verbatim>\<open>open(p, 'w')\<close> raises, if any;
  \<^item> \<open>write_error p k\<close>: the exception the \<open>k\<close>-th \<^verbatim>\<open>file.write\<close> on \<open>p\<close> raises
    (counted from 0), if any;
  \<^item> \<open>now_strftime\<close>: \<^verbatim>\<open>datetime.now().strftime("%Y-%m-%d")\<close>;
  \<^item> \<open>format_dict d\<close>: \<^verbatim>\<open>f"{d}"\<close> for a dictionary \<open>d\<close> of strings.

  During one run the answers of \<open>fs_exists\<close> and \<open>fs_entries\<close> are those of the
  environment; the report files the run itself writes end in \<^verbatim>\<open>.txt\<close>.
\<close>

record env =
  fs_exists :: "string \<Rightarrow> bool"
  fs_entries :: "string \<Rightarrow> io_error + (string \<times> entry_kind) list"
  open_error :: "string \<Rightarrow> io_error option"
  write_error :: "string \<Rightarrow> nat \<Rightarrow> io_error option"
  now_strftime :: string
  format_dict :: "(string \<times> string) list \<Rightarrow> string"

text \<open>\<^verbatim>\<open>os.path.exists\<close>: false for the empty path, which names nothing.\<close>

definition os_path_exists :: "env \<Rightarrow> string \<Rightarrow> bool" where
  "os_path_exists env p = (if p = [] then False else fs_exists env p)"

text \<open>\<^verbatim>\<open>os.listdir\<close>: a path that does not exist raises \<^verbatim>\<open>FileNotFoundError\<close>.\<close>

definition os_listdir :: "env \<Rightarrow> string \<Rightarrow> io_error + string list" where
  "os_listdir env p =
     (if \<not> os_path_exists env p then Inl FileNotFoundError
      else (case fs_entries env p of Inl e \<Rightarrow> Inl e | Inr es \<Rightarrow> Inr (map fst es)))"

text \<open>\<^verbatim>\<open>os.path.join(a, b)\<close> with two components, POSIX flavour.\<close>

definition os_path_join :: "string \<Rightarrow> string \<Rightarrow> string" where
  "os_path_join a b =
     (if startswith b ''/'' then b
      else if a = [] \<or> endswith a ''/'' then a @ b
      else a @ ''/'' @ b)"

subsection \<open>The application state\<close>

text \<open>
  The instance attributes set in \<^verbatim>\<open>__init__\<close> and the widget values the methods
  write. \<open>log_text\<close> holds the messages passed to \<^verbatim>\<open>log_message\<close>, oldest first;
  \<open>info_boxes\<close> the texts shown by \<^verbatim>\<open>messagebox.showinfo\<close>; \<open>files\<close> the contents
  of the files on disk, by path.
\<close>

record state =
  console_entries :: "(string \<times> string) list"
  selected_console :: "string option"
  output_files :: "(string \<times> string) list"
  log_text :: "string list"
  progress_value :: real
  select_button_text :: string
  directory_entry :: string
  open_folder_enabled :: bool
  open_file_enabled :: bool
  info_boxes :: "string list"
  files :: "string \<rightharpoonup> string"

definition init :: "(string \<rightharpoonup> string) \<Rightarrow> state" where
  "init fs =
     \<lparr>console_entries = [], selected_console = None, output_files = [],
      log_text = [], progress_value = 0, select_button_text = ''Select Console'',
      directory_entry = [], open_folder_enabled = False, open_file_enabled = False,
      info_boxes = [], files = fs\<rparr>"

definition popular_consoles :: "string list" where
  "popular_consoles =
     [''Atari 2600'', ''Nintendo Entertainment System (NES)'',
      ''Super Nintendo Entertainment System (SNES)'', ''Nintendo 64'', ''Sega Genesis'',
      ''Sega Saturn'', ''Sega Dreamcast'', ''Sony PlayStation'', ''Sony PlayStation 2'',
      ''Nintendo GameCube'', ''Nintendo Wii'', ''Xbox'', ''Xbox 360'',
      ''Nintendo Game Boy (GBC)'', ''Nintendo Game Boy Advance'', ''Nintendo DS'',
      ''Nintendo 3DS'', ''PlayStation Portable (PSP)'', ''PlayStation Vita'',
      ''Atari Lynx'', ''Neo Geo Pocket'', ''TurboGrafx-16 Portable'']"

definition log_message :: "state \<Rightarrow> string \<Rightarrow> state" where
  "log_message st message = st\<lparr>log_text := log_text st @ [message]\<rparr>"

definition showinfo :: "state \<Rightarrow> string \<Rightarrow> state" where
  "showinfo st message = st\<lparr>info_boxes := info_boxes st @ [message]\<rparr>"

subsection \<open>The console registry\<close>

text \<open>\<open>console_name\<close> is the value of the combobox, \<^verbatim>\<open>self.console_var.get()\<close>.\<close>

definition select_console :: "state \<Rightarrow> string \<Rightarrow> state" where
  "select_console st console_name =
     (if console_name \<noteq> [] then
        log_message
          (st\<lparr>selected_console := Some console_name,
              console_entries :=
                dict_set (console_entries st) console_name
                  (case dict_get (console_entries st) console_name of
                     None \<Rightarrow> [] | Some d \<Rightarrow> d),
              select_button_text := ''Change Console''\<rparr>)
          (''Selected console: '' @ console_name)
      else
        log_message (showinfo st ''You need to select a console first!'')
          ''Info: No console selected.'')"

text \<open>\<open>directory\<close> is what \<^verbatim>\<open>filedialog.askdirectory()\<close> returned, empty on cancel.\<close>

definition browse_directory :: "state \<Rightarrow> string \<Rightarrow> state" where
  "browse_directory st directory =
     (if directory \<noteq> [] then
        (let st1 = st\<lparr>directory_entry := directory\<rparr> in
         if truthy (selected_console st1) then
           log_message
             (st1\<lparr>console_entries :=
                    dict_set (console_entries st1) (the (selected_console st1)) directory\<rparr>)
             (''Selected directory for '' @ the (selected_console st1) @ '': '' @ directory)
         else
           log_message (showinfo st1 ''You need to select a console first!'')
             ''Info: Attempt to select a directory without a selected console.'')
      else st)"

subsection \<open>Scanning a directory\<close>

text \<open>The body of the \<^verbatim>\<open>for\<close> loop of \<^verbatim>\<open>get_game_titles\<close>, over the listed names.\<close>

fun scan_names :: "string list \<Rightarrow> string list \<Rightarrow> string list" where
  "scan_names game_titles [] = game_titles"
| "scan_names game_titles (file_name # rest) =
     scan_names
       (if endswith file_name ''.zip'' then game_titles @ [file_name] else game_titles)
       rest"

text \<open>The message of each \<^verbatim>\<open>except\<close> clause of \<^verbatim>\<open>get_game_titles\<close>.\<close>

fun listing_failed :: "string \<Rightarrow> io_error \<Rightarrow> string" where
  "listing_failed directory FileNotFoundError =
     ''Error: The directory '' @ quoted directory @ '' does not exist.''"
| "listing_failed directory PermissionError =
     ''Error: Permission denied to access the directory '' @ quoted directory @ ''.''"
| "listing_failed directory (OtherError e) =
     ''An unexpected error occurred while accessing the directory '' @ quoted directory
       @ '': '' @ e"

definition get_game_titles :: "env \<Rightarrow> state \<Rightarrow> string \<Rightarrow> state \<times> string list" where
  "get_game_titles env st directory =
     (case os_listdir env directory of
        Inr names \<Rightarrow> (st, scan_names [] names)
      | Inl e \<Rightarrow> (log_message st (listing_failed directory e), []))"

subsection \<open>Writing a report\<close>

definition report_header :: "string \<Rightarrow> string" where
  "report_header console_name = ''Console: '' @ console_name"

definition report_warning :: "string \<Rightarrow> string" where
  "report_warning console_name =
     ''Warning: We do not know if the list below is actual '' @ console_name
       @ '' game titles or not. Please double-check by yourself.''"

text \<open>The strings passed to \<^verbatim>\<open>file.write\<close>, in the order of the calls.\<close>

definition report_chunks :: "string \<Rightarrow> string list \<Rightarrow> string list" where
  "report_chunks console_name game_titles =
     (report_header console_name @ [newline])
     # (report_warning console_name @ [newline, newline])
     # map (\<lambda>title. title @ [newline]) game_titles"

text \<open>
  The calls of \<^verbatim>\<open>file.write\<close> on the open file: each appends its string, or raises
  and leaves what was written so far.
\<close>

fun write_chunks ::
  "env \<Rightarrow> string \<Rightarrow> nat \<Rightarrow> string \<Rightarrow> string list \<Rightarrow> string \<times> io_error option" where
  "write_chunks env p k content [] = (content, None)"
| "write_chunks env p k content (chunk # rest) =
     (case write_error env p k of
        Some e \<Rightarrow> (content, Some e)
      | None \<Rightarrow> write_chunks env p (Suc k) (content @ chunk) rest)"

text \<open>
  The \<^verbatim>\<open>with open(file_path, 'w')\<close> block: opening creates or truncates the file,
  unless it raises.
\<close>

definition write_file ::
  "env \<Rightarrow> string \<Rightarrow> string list \<Rightarrow> (string \<rightharpoonup> string) \<Rightarrow> (string \<rightharpoonup> string) \<times> io_error option"
  where
  "write_file env p chunks fs =
     (case open_error env p of
        Some e \<Rightarrow> (fs, Some e)
      | None \<Rightarrow>
          (case write_chunks env p 0 [] chunks of
             (content, r) \<Rightarrow> (fs(p \<mapsto> content), r)))"

text \<open>The message of each \<^verbatim>\<open>except\<close> clause of \<^verbatim>\<open>write_game_titles\<close>.\<close>

fun writing_failed :: "string \<Rightarrow> io_error \<Rightarrow> string" where
  "writing_failed file_path FileNotFoundError =
     ''Error: The file path '' @ quoted file_path @ '' does not exist.''"
| "writing_failed file_path PermissionError =
     ''Error: Permission denied to write to the file '' @ quoted file_path @ ''.''"
| "writing_failed file_path (OtherError e) =
     ''An unexpected error occurred while writing to the file '' @ quoted file_path
       @ '': '' @ e"

definition report_file_name :: "env \<Rightarrow> string \<Rightarrow> string" where
  "report_file_name env console_name = console_name @ ''_'' @ now_strftime env @ ''.txt''"

definition report_file_path :: "env \<Rightarrow> string \<Rightarrow> string \<Rightarrow> string" where
  "report_file_path env directory console_name =
     os_path_join directory (report_file_name env console_name)"

definition write_game_titles ::
  "env \<Rightarrow> state \<Rightarrow> string \<Rightarrow> string \<Rightarrow> string list \<Rightarrow> state" where
  "write_game_titles env st directory console_name game_titles =
     (let file_path = report_file_path env directory console_name;
          st1 = log_message st (''Attempting to write file to: '' @ file_path)
      in
        if game_titles \<noteq> [] then
          (case write_file env file_path (report_chunks console_name game_titles) (files st1) of
             (fs, None) \<Rightarrow>
               (log_message (st1\<lparr>files := fs\<rparr>)
                  (''Game titles have been written to '' @ file_path))
                 \<lparr>output_files := dict_set (output_files st1) console_name file_path,
                  open_folder_enabled := True,
                  open_file_enabled := True\<rparr>
           | (fs, Some e) \<Rightarrow>
               log_message (st1\<lparr>files := fs\<rparr>) (writing_failed file_path e))
        else
          log_message st1 (''No game titles found in the directory: '' @ directory))"

subsection \<open>The run\<close>

text \<open>One pass of the \<^verbatim>\<open>for\<close> loop of \<^verbatim>\<open>start_process\<close>.\<close>

definition processing_message :: "string \<Rightarrow> string \<Rightarrow> string" where
  "processing_message console_name directory =
     ''Processing '' @ console_name @ '' with directory '' @ quoted directory @ ''...''"

definition process_entry :: "env \<Rightarrow> nat \<Rightarrow> state \<Rightarrow> string \<times> string \<Rightarrow> state" where
  "process_entry env total_consoles st entry =
     (case entry of (console_name, directory) \<Rightarrow>
        (let st1 = log_message st (processing_message console_name directory)
         in
           if \<not> os_path_exists env directory then
             log_message st1 (''Error: The directory '' @ quoted directory @ '' does not exist.'')
           else
             (case get_game_titles env st1 directory of
                (st2, game_titles) \<Rightarrow>
                  (let st3 = write_game_titles env st2 directory console_name game_titles
                   in st3\<lparr>progress_value := progress_value st3 + 100 / real total_consoles\<rparr>))))"

fun process_entries :: "env \<Rightarrow> nat \<Rightarrow> state \<Rightarrow> (string \<times> string) list \<Rightarrow> state" where
  "process_entries env total_consoles st [] = st"
| "process_entries env total_consoles st (entry # rest) =
     process_entries env total_consoles (process_entry env total_consoles st entry) rest"

text \<open>The test that ends \<^verbatim>\<open>start_process\<close> before the loop.\<close>

definition nothing_selected :: "state \<Rightarrow> bool" where
  "nothing_selected st =
     (if truthy (selected_console st)
      then \<not> truthy (dict_get (console_entries st) (the (selected_console st)))
      else True)"

definition start_process :: "env \<Rightarrow> state \<Rightarrow> state" where
  "start_process env st =
     (let st1 = log_message st
                  (''Debug: Start process initiated. Selected console: ''
                     @ format_opt (selected_console st));
          st2 = log_message st1
                  (''Debug: Console entries: '' @ format_dict env (console_entries st1))
      in
        if nothing_selected st2 then
          log_message
            (showinfo st2 ''You need to select a console and a directory first!'')
            ''Info: Attempt to start process without selecting both console and directory.''
        else
          (let st3 = st2\<lparr>progress_value := 0\<rparr>;
               total_consoles = length (console_entries st3);
               st4 = process_entries env total_consoles st3 (console_entries st3);
               st5 = log_message st4 ''Process completed.''
           in st5\<lparr>progress_value := 100\<rparr>))"

text \<open>
  \<^verbatim>\<open>open_folder\<close> and \<^verbatim>\<open>open_file\<close> hand a path to the platform's opener and
  change nothing the application holds. The event loop calls one callback per event, each
  on the platform as it is at that moment.
\<close>

datatype event = SelectConsole string | BrowseDirectory string | StartProcess | OpenFolder | OpenFile

fun dispatch :: "env \<Rightarrow> state \<Rightarrow> event \<Rightarrow> state" where
  "dispatch env st (SelectConsole console_name) = select_console st console_name"
| "dispatch env st (BrowseDirectory directory) = browse_directory st directory"
| "dispatch env st StartProcess = start_process env st"
| "dispatch env st OpenFolder = st"
| "dispatch env st OpenFile = st"

fun mainloop :: "state \<Rightarrow> (env \<times> event) list \<Rightarrow> state" where
  "mainloop st [] = st"
| "mainloop st ((env, ev) # rest) = mainloop (dispatch env st ev) rest"

subsection \<open>Texts as lines\<close>

text \<open>
  A text made of lines, each ended by a newline, and the lines of a text. They state
  what a report file holds.
\<close>

definition unlines :: "string list \<Rightarrow> string" where
  "unlines ls = concat (map (\<lambda>l. l @ [newline]) ls)"

fun split_lines :: "string \<Rightarrow> string list" where
  "split_lines [] = []"
| "split_lines (c # cs) =
     (if c = newline then [] # split_lines cs
      else (case split_lines cs of [] \<Rightarrow> [[c]] | l # ls \<Rightarrow> (c # l) # ls))"

definition report_lines :: "string \<Rightarrow> string list \<Rightarrow> string list" where
  "report_lines console_name game_titles =
     report_header console_name # report_warning console_name # [] # game_titles"

subsection \<open>An example platform\<close>

text \<open>
  \<^verbatim>\<open>sep.join(parts)\<close>, and the text of a dictionary whose keys and values hold no
  quote, backslash or non-printing character.
\<close>

fun join :: "string \<Rightarrow> string list \<Rightarrow> string" where
  "join sep [] = []"
| "join sep [x] = x"
| "join sep (x # y # ys) = x @ sep @ join sep (y # ys)"

definition plain_format_dict :: "(string \<times> string) list \<Rightarrow> string" where
  "plain_format_dict d =
     ''{'' @ join '', '' (map (\<lambda>(k, v). quoted k @ '': '' @ quoted v) d) @ ''}''"

text \<open>
  Four directories exist: \<^verbatim>\<open>/roms/nes\<close> holds an archive and a text file,
  \<^verbatim>\<open>/roms/snes\<close> a subdirectory named \<^verbatim>\<open>foo.zip\<close> and a file \<^verbatim>\<open>GAME.ZIP\<close>,
  \<^verbatim>\<open>/roms/readonly\<close> one archive and refuses new files, \<^verbatim>\<open>/roms/locked\<close> cannot be
  listed. Nothing else exists.
\<close>

definition example_env :: env where
  "example_env =
     \<lparr>fs_exists =
        (\<lambda>p. p = ''/roms/nes'' \<or> p = ''/roms/snes'' \<or> p = ''/roms/readonly''
              \<or> p = ''/roms/locked''),
      fs_entries =
        (\<lambda>p. if p = ''/roms/nes'' then
                Inr [(''Mega Man.zip'', RegularFile), (''readme.txt'', RegularFile)]
              else if p = ''/roms/snes'' then
                Inr [(''foo.zip'', Directory), (''GAME.ZIP'', RegularFile)]
              else if p = ''/roms/readonly'' then Inr [(''a.zip'', RegularFile)]
              else if p = ''/roms/locked'' then Inl PermissionError
              else Inl FileNotFoundError),
      open_error =
        (\<lambda>p. if startswith p ''/roms/readonly/'' then Some PermissionError else None),
      write_error = (\<lambda>p k. None),
      now_strftime = ''2024-05-18'',
      format_dict = plain_format_dict\<rparr>"

text \<open>Two registries: a missing directory before a valid one, and a lone selection.\<close>

definition missing_then_nes :: state where
  "missing_then_nes =
     select_console
       (browse_directory
          (select_console
             (browse_directory (select_console (init Map.empty) ''Atari 2600'') ''/missing'')
             ''Nintendo Entertainment System (NES)'')
          ''/roms/nes'')
       ''Nintendo Entertainment System (NES)''"

definition only_selected :: state where
  "only_selected = select_console (init Map.empty) ''Sega Genesis''"

text \<open>A registry with a scanned directory and a console that was only selected.\<close>

definition nes_and_unset :: state where
  "nes_and_unset =
     select_console
       (select_console
          (browse_directory
             (select_console (init Map.empty) ''Nintendo Entertainment System (NES)'')
             ''/roms/nes'')
          ''Sega Genesis'')
       ''Nintendo Entertainment System (NES)''"

text \<open>A registry with a scanned directory, and the selection moved to a console without one.\<close>

definition nes_then_unset :: state where
  "nes_then_unset =
     select_console
       (browse_directory
          (select_console (init Map.empty) ''Nintendo Entertainment System (NES)'')
          ''/roms/nes'')
       ''Sega Genesis''"

text \<open>The log lines of the run itself: one per entry, and the completion.\<close>

definition run_line :: "string \<Rightarrow> bool" where
  "run_line l = (startswith l ''Processing '' \<or> l = ''Process completed.'')"

text \<open>
  The platform a day later, and a session of two runs: the second finds a second console
  whose directory refuses new files.
\<close>

definition next_day_env :: env where
  "next_day_env = example_env\<lparr>now_strftime := ''2024-05-19''\<rparr>"

definition two_runs :: "(env \<times> event) list" where
  "two_runs =
     [(example_env, SelectConsole ''Nintendo 64''),
      (example_env, BrowseDirectory ''/roms/nes''),
      (example_env, StartProcess),
      (example_env, SelectConsole ''Xbox''),
      (example_env, BrowseDirectory ''/roms/readonly''),
      (next_day_env, StartProcess)]"

section \<open>Auxiliary facts\<close>

lemmas string_defs = startswith_def endswith_def quoted_def newline_def
lemmas platform_defs = example_env_def os_path_exists_def os_listdir_def os_path_join_def
  report_file_path_def report_file_name_def plain_format_dict_def
lemmas report_defs = report_header_def report_warning_def report_chunks_def unlines_def
  write_file_def write_game_titles_def get_game_titles_def
lemmas registry_defs = init_def log_message_def showinfo_def select_console_def
  browse_directory_def
lemmas run_defs = processing_message_def process_entry_def nothing_selected_def
  start_process_def Let_def

lemma endswith_iff: "endswith s p \<longleftrightarrow> (\<exists>q. s = q @ p)"
proof
  assume "endswith s p"
  then have "s = take (length s - length p) s @ p"
    by (metis append_take_drop_id endswith_def)
  then show "\<exists>q. s = q @ p" ..
next
  assume "\<exists>q. s = q @ p"
  then show "endswith s p" by (auto simp: endswith_def)
qed

lemma scan_names_filter:
  "scan_names acc names = acc @ filter (\<lambda>n. endswith n ''.zip'') names"
  by (induction names arbitrary: acc) auto

lemma write_chunks_ok:
  "\<forall>k. write_error env p k = None \<Longrightarrow>
     write_chunks env p k content chunks = (content @ concat chunks, None)"
  by (induction chunks arbitrary: k content) auto

lemma concat_report_chunks:
  "concat (report_chunks console_name game_titles)
     = unlines (report_lines console_name game_titles)"
  by (simp add: report_chunks_def unlines_def report_lines_def)

lemma split_lines_line:
  "newline \<notin> set l \<Longrightarrow> split_lines (l @ newline # rest) = l # split_lines rest"
  by (induction l) auto

lemma split_lines_unlines:
  "(\<forall>l\<in>set ls. newline \<notin> set l) \<Longrightarrow> split_lines (unlines ls) = ls"
  by (induction ls) (auto simp: unlines_def split_lines_line)

lemma write_game_titles_success:
  assumes "game_titles \<noteq> []"
    and "open_error env (report_file_path env directory console_name) = None"
    and "\<forall>k. write_error env (report_file_path env directory console_name) k = None"
  shows "write_game_titles env st directory console_name game_titles
     = st\<lparr>log_text := log_text st @
            [''Attempting to write file to: '' @ report_file_path env directory console_name,
             ''Game titles have been written to '' @ report_file_path env directory console_name],
           files := (files st)(report_file_path env directory console_name \<mapsto>
                       unlines (report_lines console_name game_titles)),
           output_files := dict_set (output_files st) console_name
                             (report_file_path env directory console_name),
           open_folder_enabled := True, open_file_enabled := True\<rparr>"
  using assms
  by (simp add: write_game_titles_def Let_def write_file_def write_chunks_ok log_message_def
      concat_report_chunks)

lemma startswith_file_name:
  "startswith (report_file_name env console_name) ''/'' = startswith console_name ''/''"
  by (cases console_name) (simp_all add: startswith_def report_file_name_def)

lemma report_file_path_inside:
  "\<not> startswith console_name ''/'' \<Longrightarrow>
     report_file_path env directory console_name
       = directory @ (if directory = [] \<or> endswith directory ''/'' then [] else ''/'')
           @ report_file_name env console_name"
  by (simp add: report_file_path_def os_path_join_def startswith_file_name)

lemma popular_consoles_plain:
  "\<forall>c\<in>set popular_consoles. \<not> startswith c ''/'' \<and> newline \<notin> set c"
  by (simp add: popular_consoles_def startswith_def newline_def)

lemma newline_free_header:
  "newline \<notin> set console_name \<Longrightarrow>
     newline \<notin> set (report_header console_name) \<and> newline \<notin> set (report_warning console_name)"
  by (simp add: report_header_def report_warning_def newline_def)

lemma process_entry_missing:
  "\<not> os_path_exists env directory \<Longrightarrow>
     process_entry env n st (console_name, directory)
       = st\<lparr>log_text := log_text st @
              [processing_message console_name directory,
               ''Error: The directory '' @ quoted directory @ '' does not exist.'']\<rparr>"
  by (simp add: process_entry_def log_message_def)



lemma nothing_selected_log:
  "nothing_selected (st\<lparr>log_text := l\<rparr>) = nothing_selected st"
  by (simp add: nothing_selected_def)

lemma start_process_halts:
  "nothing_selected st \<Longrightarrow>
     start_process env st
       = st\<lparr>log_text := log_text st @
              [''Debug: Start process initiated. Selected console: ''
                 @ format_opt (selected_console st),
               ''Debug: Console entries: '' @ format_dict env (console_entries st),
               ''Info: Attempt to start process without selecting both console and directory.''],
             info_boxes := info_boxes st @
               [''You need to select a console and a directory first!'']\<rparr>"
  by (simp add: start_process_def Let_def nothing_selected_log log_message_def showinfo_def)

lemma start_process_runs:
  "\<not> nothing_selected st \<Longrightarrow>
     start_process env st
       = (log_message
            (process_entries env (length (console_entries st))
               (st\<lparr>log_text := log_text st @
                      [''Debug: Start process initiated. Selected console: ''
                         @ format_opt (selected_console st),
                       ''Debug: Console entries: '' @ format_dict env (console_entries st)],
                    progress_value := 0\<rparr>)
               (console_entries st))
            ''Process completed.'')\<lparr>progress_value := 100\<rparr>"
  by (simp add: start_process_def Let_def nothing_selected_log log_message_def)

lemma nothing_selected_iff:
  "nothing_selected st \<longleftrightarrow>
     (selected_console st = None \<or> selected_console st = Some []
      \<or> (\<exists>c. selected_console st = Some c
              \<and> (dict_get (console_entries st) c = None
                  \<or> dict_get (console_entries st) c = Some [])))"
proof (cases "selected_console st")
  case None
  then show ?thesis by (simp add: nothing_selected_def)
next
  case (Some c)
  then show ?thesis
    by (cases "dict_get (console_entries st) c") (auto simp: nothing_selected_def)
qed

lemma listing_failed_plain: "\<not> run_line (listing_failed directory e)"
  by (cases e) (simp_all add: run_line_def startswith_def)

lemma writing_failed_plain: "\<not> run_line (writing_failed file_path e)"
  by (cases e) (simp_all add: run_line_def startswith_def)

lemma processing_message_line:
  "startswith (processing_message console_name directory) ''Processing ''"
  "processing_message console_name directory \<noteq> ''Process completed.''"
  by (simp_all add: processing_message_def startswith_def)

lemma get_game_titles_log:
  "\<exists>ls. log_text (fst (get_game_titles env st directory)) = log_text st @ ls
        \<and> (\<forall>l\<in>set ls. \<not> run_line l)"
  by (cases "os_listdir env directory")
    (simp_all add: get_game_titles_def log_message_def listing_failed_plain)

lemma write_game_titles_log:
  "\<exists>ls. log_text (write_game_titles env st directory console_name game_titles)
          = log_text st @ ls
        \<and> (\<forall>l\<in>set ls. \<not> run_line l)"
proof (cases "game_titles = []")
  case True
  then show ?thesis
    by (simp add: write_game_titles_def Let_def log_message_def run_line_def startswith_def)
next
  case False
  obtain fs r where w: "write_file env (report_file_path env directory console_name)
      (report_chunks console_name game_titles) (files st) = (fs, r)"
    by (cases "write_file env (report_file_path env directory console_name)
      (report_chunks console_name game_titles) (files st)") auto
  show ?thesis
  proof (cases r)
    case None
    with False w show ?thesis
      by (simp add: write_game_titles_def Let_def log_message_def run_line_def startswith_def)
  next
    case (Some e)
    with False w writing_failed_plain [of "report_file_path env directory console_name" e]
    show ?thesis
      by (simp add: write_game_titles_def Let_def log_message_def run_line_def startswith_def)
  qed
qed

lemma process_entry_log:
  "\<exists>ls. log_text (process_entry env n st (console_name, directory))
          = log_text st @ processing_message console_name directory # ls
        \<and> (\<forall>l\<in>set ls. \<not> run_line l)"
proof (cases "os_path_exists env directory")
  case False
  then show ?thesis
    by (simp add: process_entry_missing run_line_def startswith_def)
next
  case True
  let ?st1 = "log_message st (processing_message console_name directory)"
  obtain st2 titles where g: "get_game_titles env ?st1 directory = (st2, titles)"
    by (cases "get_game_titles env ?st1 directory") auto
  from get_game_titles_log [of env ?st1 directory] g
  obtain ls1 where l1: "log_text st2 = log_text ?st1 @ ls1" "\<forall>l\<in>set ls1. \<not> run_line l"
    by auto
  from write_game_titles_log [of env st2 directory console_name titles]
  obtain ls2 where l2: "log_text (write_game_titles env st2 directory console_name titles)
      = log_text st2 @ ls2" "\<forall>l\<in>set ls2. \<not> run_line l"
    by auto
  have "log_text (process_entry env n st (console_name, directory))
          = log_text st @ processing_message console_name directory # (ls1 @ ls2)"
    using True g l1(1) l2(1) by (simp add: process_entry_def Let_def log_message_def)
  moreover have "\<forall>l\<in>set (ls1 @ ls2). \<not> run_line l"
    using l1(2) l2(2) by auto
  ultimately show ?thesis by blast
qed

lemma process_entries_log:
  "\<exists>ls. log_text (process_entries env n st entries) = log_text st @ ls
        \<and> filter (\<lambda>l. startswith l ''Processing '') ls
            = map (\<lambda>(console_name, directory). processing_message console_name directory)
                entries
        \<and> ''Process completed.'' \<notin> set ls"
proof (induction entries arbitrary: st)
  case Nil
  show ?case by simp
next
  case (Cons entry entries)
  obtain console_name directory where e: "entry = (console_name, directory)"
    by (cases entry) auto
  from process_entry_log [of env n st console_name directory]
  obtain ls1 where l1: "log_text (process_entry env n st (console_name, directory))
          = log_text st @ processing_message console_name directory # ls1"
      "\<forall>l\<in>set ls1. \<not> run_line l"
    by auto
  from Cons.IH [of "process_entry env n st (console_name, directory)"]
  obtain ls2 where l2: "log_text (process_entries env n
        (process_entry env n st (console_name, directory)) entries)
        = log_text (process_entry env n st (console_name, directory)) @ ls2"
      "filter (\<lambda>l. startswith l ''Processing '') ls2
         = map (\<lambda>(console_name, directory). processing_message console_name directory) entries"
      "''Process completed.'' \<notin> set ls2"
    by auto
  have plain: "filter (\<lambda>l. startswith l ''Processing '') ls1 = []"
    "''Process completed.'' \<notin> set ls1"
    using l1(2) by (auto simp: run_line_def filter_empty_conv)
  let ?ls = "processing_message console_name directory # ls1 @ ls2"
  have "log_text (process_entries env n st (entry # entries)) = log_text st @ ?ls"
    using e l1(1) l2(1) by simp
  moreover have "filter (\<lambda>l. startswith l ''Processing '') ?ls
      = map (\<lambda>(console_name, directory). processing_message console_name directory)
          (entry # entries)"
    using e l2(2) plain(1) processing_message_line(1) by simp
  moreover have "''Process completed.'' \<notin> set ?ls"
    using l2(3) plain(2) processing_message_line(2) [of console_name directory] by auto
  ultimately show ?case by blast
qed

lemma dict_get_set:
  "dict_get (dict_set d k v) k' = (if k' = k then Some v else dict_get d k')"
  by (induction d) auto

lemma keys_dict_set:
  "map fst (dict_set d k v) = (if k \<in> set (map fst d) then map fst d else map fst d @ [k])"
  by (induction d) force+

lemma distinct_dict_set: "distinct (map fst d) \<Longrightarrow> distinct (map fst (dict_set d k v))"
  by (simp add: keys_dict_set)

lemma write_game_titles_output_files:
  "output_files (write_game_titles env st directory console_name game_titles)
     = (if game_titles \<noteq> []
           \<and> snd (write_file env (report_file_path env directory console_name)
                    (report_chunks console_name game_titles) (files st)) = None
        then dict_set (output_files st) console_name
               (report_file_path env directory console_name)
        else output_files st)"
proof -
  obtain fs r where w: "write_file env (report_file_path env directory console_name)
      (report_chunks console_name game_titles) (files st) = (fs, r)"
    by (cases "write_file env (report_file_path env directory console_name)
      (report_chunks console_name game_titles) (files st)") auto
  then show ?thesis
    by (cases r) (simp_all add: write_game_titles_def Let_def log_message_def)
qed

lemma get_game_titles_output_files:
  "output_files (fst (get_game_titles env st directory)) = output_files st"
  by (cases "os_listdir env directory") (simp_all add: get_game_titles_def log_message_def)

lemma process_entry_distinct:
  assumes "distinct (map fst (output_files st))"
  shows "distinct (map fst (output_files (process_entry env n st entry)))"
proof -
  obtain console_name directory where e: "entry = (console_name, directory)"
    by (cases entry) auto
  let ?st1 = "log_message st (processing_message console_name directory)"
  obtain st2 titles where g: "get_game_titles env ?st1 directory = (st2, titles)"
    by (cases "get_game_titles env ?st1 directory") auto
  have "output_files st2 = output_files st"
    using get_game_titles_output_files [of env ?st1 directory] g
    by (simp add: log_message_def)
  then show ?thesis
    using assms e g
    by (simp add: process_entry_def Let_def log_message_def write_game_titles_output_files
        distinct_dict_set)
qed

lemma process_entries_distinct:
  "distinct (map fst (output_files st)) \<Longrightarrow>
     distinct (map fst (output_files (process_entries env n st entries)))"
  by (induction entries arbitrary: st) (simp_all add: process_entry_distinct)

lemma start_process_distinct:
  assumes "distinct (map fst (output_files st))"
  shows "distinct (map fst (output_files (start_process env st)))"
proof (cases "nothing_selected st")
  case True
  then show ?thesis using assms by (simp add: start_process_halts)
next
  case False
  then show ?thesis
    using assms by (simp add: start_process_runs log_message_def process_entries_distinct)
qed

lemma select_console_output_files:
  "output_files (select_console st console_name) = output_files st"
  by (simp add: select_console_def log_message_def showinfo_def)

lemma browse_directory_output_files:
  "output_files (browse_directory st directory) = output_files st"
  by (simp add: browse_directory_def Let_def log_message_def showinfo_def)

lemma dispatch_distinct:
  "distinct (map fst (output_files st)) \<Longrightarrow>
     distinct (map fst (output_files (dispatch env st ev)))"
  by (cases ev)
    (simp_all add: select_console_output_files browse_directory_output_files
      start_process_distinct)

lemma mainloop_distinct:
  "distinct (map fst (output_files st)) \<Longrightarrow>
     distinct (map fst (output_files (mainloop st events)))"
  by (induction events arbitrary: st) (auto simp: dispatch_distinct)

lemma get_game_titles_titles:
  "snd (get_game_titles env st directory) = snd (get_game_titles env st' directory)"
  by (cases "os_listdir env directory") (simp_all add: get_game_titles_def)

lemma get_game_titles_files:
  "files (fst (get_game_titles env st directory)) = files st"
  by (cases "os_listdir env directory") (simp_all add: get_game_titles_def log_message_def)

lemma write_file_result:
  "snd (write_file env p chunks fs) = snd (write_file env p chunks fs')"
  by (cases "open_error env p"; cases "write_chunks env p 0 [] chunks")
    (simp_all add: write_file_def)

lemma process_entry_output_files:
  "output_files (process_entry env n st (console_name, directory))
     = (if os_path_exists env directory
           \<and> snd (get_game_titles env st0 directory) \<noteq> []
           \<and> snd (write_file env (report_file_path env directory console_name)
                    (report_chunks console_name (snd (get_game_titles env st0 directory)))
                    fs0) = None
        then dict_set (output_files st) console_name
               (report_file_path env directory console_name)
        else output_files st)"
proof (cases "os_path_exists env directory")
  case False
  then show ?thesis by (simp add: process_entry_missing)
next
  case True
  let ?st1 = "log_message st (processing_message console_name directory)"
  obtain st2 titles where g: "get_game_titles env ?st1 directory = (st2, titles)"
    by (cases "get_game_titles env ?st1 directory") auto
  have titles: "snd (get_game_titles env st0 directory) = titles"
    using get_game_titles_titles [of env st0 directory ?st1] g by simp
  have records: "output_files st2 = output_files st"
    using get_game_titles_output_files [of env ?st1 directory] g
    by (simp add: log_message_def)
  have result: "snd (write_file env (report_file_path env directory console_name)
                    (report_chunks console_name titles) (files st2))
      = snd (write_file env (report_file_path env directory console_name)
                    (report_chunks console_name titles) fs0)"
    by (rule write_file_result)
  show ?thesis
    using True g
    by (simp add: process_entry_def Let_def write_game_titles_output_files titles records
        result)
qed

lemma process_entries_records:
  "dict_get (output_files (process_entries env n st entries)) console_name = Some p \<Longrightarrow>
     dict_get (output_files st) console_name = Some p
     \<or> (\<exists>directory. (console_name, directory) \<in> set entries
           \<and> p = report_file_path env directory console_name
           \<and> os_path_exists env directory
           \<and> snd (get_game_titles env st0 directory) \<noteq> []
           \<and> snd (write_file env p
                    (report_chunks console_name (snd (get_game_titles env st0 directory)))
                    fs0) = None)"
proof (induction entries arbitrary: st)
  case Nil
  then show ?case by simp
next
  case (Cons entry entries)
  obtain c d where e: "entry = (c, d)"
    by (cases entry) auto
  let ?st' = "process_entry env n st (c, d)"
  from Cons.prems e
  have "dict_get (output_files (process_entries env n ?st' entries)) console_name = Some p"
    by simp
  from Cons.IH [OF this]
  consider (earlier) "dict_get (output_files ?st') console_name = Some p"
    | (later) "\<exists>directory. (console_name, directory) \<in> set entries
           \<and> p = report_file_path env directory console_name
           \<and> os_path_exists env directory
           \<and> snd (get_game_titles env st0 directory) \<noteq> []
           \<and> snd (write_file env p
                    (report_chunks console_name (snd (get_game_titles env st0 directory)))
                    fs0) = None"
    by blast
  then show ?case
  proof cases
    case later
    then show ?thesis by auto
  next
    case earlier
    show ?thesis
    proof (cases "os_path_exists env d
           \<and> snd (get_game_titles env st0 d) \<noteq> []
           \<and> snd (write_file env (report_file_path env d c)
                    (report_chunks c (snd (get_game_titles env st0 d))) fs0) = None")
      case False
      then have "output_files ?st' = output_files st"
        using process_entry_output_files [of env n st c d st0 fs0] by auto
      with earlier show ?thesis by simp
    next
      case True
      then have "output_files ?st' = dict_set (output_files st) c (report_file_path env d c)"
        using process_entry_output_files [of env n st c d st0 fs0] by auto
      with earlier
      have "(if console_name = c then Some (report_file_path env d c)
             else dict_get (output_files st) console_name) = Some p"
        by (simp add: dict_get_set)
      then show ?thesis
        using True e by (cases "console_name = c") auto
    qed
  qed
qed

lemma start_process_output_files:
  "output_files (start_process env st)
     = (if nothing_selected st then output_files st
        else output_files
               (process_entries env (length (console_entries st))
                  (st\<lparr>log_text := log_text st @
                         [''Debug: Start process initiated. Selected console: ''
                            @ format_opt (selected_console st),
                          ''Debug: Console entries: ''
                            @ format_dict env (console_entries st)],
                       progress_value := 0\<rparr>)
                  (console_entries st)))"
  by (simp add: start_process_halts start_process_runs log_message_def)

lemma start_process_records:
  assumes "dict_get (output_files (start_process env st)) console_name = Some p"
  shows "dict_get (output_files st) console_name = Some p
     \<or> (\<not> nothing_selected st
        \<and> (\<exists>directory. (console_name, directory) \<in> set (console_entries st)
           \<and> p = report_file_path env directory console_name
           \<and> os_path_exists env directory
           \<and> snd (get_game_titles env st directory) \<noteq> []
           \<and> snd (write_file env p
                    (report_chunks console_name (snd (get_game_titles env st directory)))
                    (files st)) = None))"
proof (cases "nothing_selected st")
  case True
  with assms show ?thesis by (simp add: start_process_output_files)
next
  case False
  let ?st3 = "st\<lparr>log_text := log_text st @
                         [''Debug: Start process initiated. Selected console: ''
                            @ format_opt (selected_console st),
                          ''Debug: Console entries: ''
                            @ format_dict env (console_entries st)],
                       progress_value := 0\<rparr>"
  from assms False
  have "dict_get (output_files (process_entries env (length (console_entries st)) ?st3
          (console_entries st))) console_name = Some p"
    by (simp add: start_process_output_files)
  from process_entries_records [OF this, of st "files st"] False
  show ?thesis by simp
qed

section \<open>The scan\<close>

text \<open>
  C1. When the directory can be listed, \<^verbatim>\<open>get_game_titles\<close> returns exactly the listed
  names that end with the literal suffix \<^verbatim>\<open>.zip\<close> (compared character by character,
  so case-sensitively), in the order of the listing, and logs nothing. For a directory
  holding \<^verbatim>\<open>Mega Man.zip\<close> and \<^verbatim>\<open>readme.txt\<close> the result is \<^verbatim>\<open>Mega Man.zip\<close> alone.
\<close>

theorem get_game_titles_zip_filter:
  assumes "os_listdir env directory = Inr names"
  shows "get_game_titles env st directory
           = (st, filter (\<lambda>n. \<exists>stem. n = stem @ ''.zip'') names)"
  using assms by (simp add: get_game_titles_def scan_names_filter endswith_iff)

theorem get_game_titles_zip_filter_witness:
  "os_listdir example_env ''/roms/nes'' = Inr [''Mega Man.zip'', ''readme.txt'']
   \<and> snd (get_game_titles example_env (init Map.empty) ''/roms/nes'') = [''Mega Man.zip'']
   \<and> os_listdir example_env ''/roms/snes'' = Inr [''foo.zip'', ''GAME.ZIP'']
   \<and> snd (get_game_titles example_env (init Map.empty) ''/roms/snes'') = [''foo.zip'']"
proof -
  have nes: "os_listdir example_env ''/roms/nes'' = Inr [''Mega Man.zip'', ''readme.txt'']"
    by (simp add: os_listdir_def os_path_exists_def example_env_def)
  have snes: "os_listdir example_env ''/roms/snes'' = Inr [''foo.zip'', ''GAME.ZIP'']"
    by (simp add: os_listdir_def os_path_exists_def example_env_def)
  have zip: "\<And>n. (\<exists>stem. n = stem @ ''.zip'') = endswith n ''.zip''"
    by (simp add: endswith_iff)
  show ?thesis
    using get_game_titles_zip_filter [OF nes, of "init Map.empty"]
      get_game_titles_zip_filter [OF snes, of "init Map.empty"] nes snes
    by (simp add: zip endswith_def)
qed

section \<open>The report\<close>

text \<open>
  C3. With an empty title list \<^verbatim>\<open>write_game_titles\<close> only logs: the path it would
  have written and the message that no game titles were found. No file is created or
  changed and no output record is added.
\<close>

theorem write_game_titles_empty:
  "write_game_titles env st directory console_name []
     = st\<lparr>log_text := log_text st @
            [''Attempting to write file to: '' @ report_file_path env directory console_name,
             ''No game titles found in the directory: '' @ directory]\<rparr>
   \<and> files (write_game_titles env st directory console_name []) = files st
   \<and> output_files (write_game_titles env st directory console_name []) = output_files st"
  by (simp add: write_game_titles_def log_message_def)

text \<open>
  C2, as the code has it. With a non-empty title list, when opening and writing the file
  do not fail and neither the console name nor a title holds a newline character,
  \<^verbatim>\<open>write_game_titles\<close> writes the file named by the console name, an underscore, the
  date and \<^verbatim>\<open>.txt\<close>, joined to the scanned directory (inside it whenever the console
  name does not start with a slash). The text of the file is the header, the warning, an
  empty line and the titles in scan order, each ended by a newline, and its lines are
  exactly these: the three lines of the block and the \<open>N\<close> titles, \<open>N + 3\<close> lines. No other
  file changes.
\<close>

theorem write_game_titles_report:
  assumes "game_titles \<noteq> []"
    and "open_error env
           (os_path_join directory (console_name @ ''_'' @ now_strftime env @ ''.txt''))
         = None"
    and "\<forall>k. write_error env
           (os_path_join directory (console_name @ ''_'' @ now_strftime env @ ''.txt'')) k
         = None"
    and "newline \<notin> set console_name"
    and "\<forall>title\<in>set game_titles. newline \<notin> set title"
  shows "\<exists>content.
      files (write_game_titles env st directory console_name game_titles)
        (os_path_join directory (console_name @ ''_'' @ now_strftime env @ ''.txt''))
      = Some content
      \<and> content
          = unlines ([''Console: '' @ console_name, report_warning console_name, []]
                      @ game_titles)
      \<and> split_lines content
          = [''Console: '' @ console_name, report_warning console_name, []] @ game_titles
      \<and> length (split_lines content) = length game_titles + 3
      \<and> (\<not> startswith console_name ''/'' \<longrightarrow>
            os_path_join directory (console_name @ ''_'' @ now_strftime env @ ''.txt'')
              = directory @ (if directory = [] \<or> endswith directory ''/'' then [] else ''/'')
                  @ console_name @ ''_'' @ now_strftime env @ ''.txt'')
      \<and> (\<forall>p. p \<noteq> os_path_join directory
                        (console_name @ ''_'' @ now_strftime env @ ''.txt'') \<longrightarrow>
            files (write_game_titles env st directory console_name game_titles) p
              = files st p)"
proof -
  let ?path = "os_path_join directory (console_name @ ''_'' @ now_strftime env @ ''.txt'')"
  let ?lines = "[''Console: '' @ console_name, report_warning console_name, []] @ game_titles"
  have path: "report_file_path env directory console_name = ?path"
    by (simp add: report_file_path_def report_file_name_def)
  note written = write_game_titles_success [of game_titles env directory console_name st,
      unfolded path, OF assms(1-3)]
  have content: "files (write_game_titles env st directory console_name game_titles) ?path
      = Some (unlines ?lines)"
    by (simp add: written report_lines_def report_header_def)
  have others: "\<forall>p. p \<noteq> ?path \<longrightarrow>
      files (write_game_titles env st directory console_name game_titles) p = files st p"
    by (simp add: written)
  have "\<forall>l\<in>set ?lines. newline \<notin> set l"
    using assms(4,5) newline_free_header [of console_name]
    by (simp add: report_header_def)
  then have lines: "split_lines (unlines ?lines) = ?lines"
    by (rule split_lines_unlines)
  then have count: "length (split_lines (unlines ?lines)) = length game_titles + 3"
    by simp
  have inside: "\<not> startswith console_name ''/'' \<longrightarrow>
      ?path = directory @ (if directory = [] \<or> endswith directory ''/'' then [] else ''/'')
                @ console_name @ ''_'' @ now_strftime env @ ''.txt''"
    using report_file_path_inside [of console_name env directory]
    by (simp add: path report_file_name_def)
  from content lines count inside others show ?thesis
    by blast
qed

theorem write_game_titles_report_witness:
  "[''Mega Man.zip''] \<noteq> []
   \<and> os_path_join ''/roms/nes'' (''Xbox'' @ ''_'' @ now_strftime example_env @ ''.txt'')
       = ''/roms/nes/Xbox_2024-05-18.txt''
   \<and> open_error example_env ''/roms/nes/Xbox_2024-05-18.txt'' = None
   \<and> newline \<notin> set ''Xbox''
   \<and> files (write_game_titles example_env (init Map.empty) ''/roms/nes'' ''Xbox''
               [''Mega Man.zip''])
         ''/roms/nes/Xbox_2024-05-18.txt''
       = Some (''Console: Xbox'' @ [newline]
               @ ''Warning: We do not know if the list below is actual Xbox game titles or not. Please double-check by yourself.''
               @ [newline, newline] @ ''Mega Man.zip'' @ [newline])
   \<and> split_lines
        (''Console: Xbox'' @ [newline]
         @ ''Warning: We do not know if the list below is actual Xbox game titles or not. Please double-check by yourself.''
         @ [newline, newline] @ ''Mega Man.zip'' @ [newline])
       = [''Console: Xbox'',
          ''Warning: We do not know if the list below is actual Xbox game titles or not. Please double-check by yourself.'',
          [], ''Mega Man.zip'']"
proof -
  have titles: "[''Mega Man.zip''] \<noteq> []"
    by simp
  have path: "os_path_join ''/roms/nes'' (''Xbox'' @ ''_'' @ now_strftime example_env @ ''.txt'')
                = ''/roms/nes/Xbox_2024-05-18.txt''"
    by (simp add: platform_defs string_defs)
  have opened: "open_error example_env ''/roms/nes/Xbox_2024-05-18.txt'' = None"
    by (simp add: example_env_def string_defs)
  have written: "\<forall>k. write_error example_env ''/roms/nes/Xbox_2024-05-18.txt'' k = None"
    by (simp add: example_env_def)
  have console: "newline \<notin> set ''Xbox''"
    by (simp add: newline_def)
  have plain: "\<forall>title\<in>set [''Mega Man.zip'']. newline \<notin> set title"
    by (simp add: newline_def)
  have rendered:
    "unlines ([''Console: '' @ ''Xbox'', report_warning ''Xbox'', []] @ [''Mega Man.zip''])
       = ''Console: Xbox'' @ [newline]
          @ ''Warning: We do not know if the list below is actual Xbox game titles or not. Please double-check by yourself.''
          @ [newline, newline] @ ''Mega Man.zip'' @ [newline]"
    by (simp add: report_warning_def unlines_def)
  have warning: "report_warning ''Xbox''
       = ''Warning: We do not know if the list below is actual Xbox game titles or not. Please double-check by yourself.''"
    by (simp add: report_warning_def)
  from write_game_titles_report [of "[''Mega Man.zip'']" example_env "''/roms/nes''"
      "''Xbox''" "init Map.empty", unfolded path, OF titles opened written console plain]
  obtain content where
    c: "files (write_game_titles example_env (init Map.empty) ''/roms/nes'' ''Xbox''
               [''Mega Man.zip'']) ''/roms/nes/Xbox_2024-05-18.txt'' = Some content"
      "content = unlines ([''Console: '' @ ''Xbox'', report_warning ''Xbox'', []]
                            @ [''Mega Man.zip''])"
      "split_lines content
         = [''Console: '' @ ''Xbox'', report_warning ''Xbox'', []] @ [''Mega Man.zip'']"
    by blast
  have stored: "files (write_game_titles example_env (init Map.empty) ''/roms/nes'' ''Xbox''
               [''Mega Man.zip''])
         ''/roms/nes/Xbox_2024-05-18.txt''
       = Some (''Console: Xbox'' @ [newline]
               @ ''Warning: We do not know if the list below is actual Xbox game titles or not. Please double-check by yourself.''
               @ [newline, newline] @ ''Mega Man.zip'' @ [newline])"
    using c(1,2) by (simp only: rendered)
  have lines: "split_lines
        (''Console: Xbox'' @ [newline]
         @ ''Warning: We do not know if the list below is actual Xbox game titles or not. Please double-check by yourself.''
         @ [newline, newline] @ ''Mega Man.zip'' @ [newline])
       = [''Console: Xbox'',
          ''Warning: We do not know if the list below is actual Xbox game titles or not. Please double-check by yourself.'',
          [], ''Mega Man.zip'']"
    by (simp add: newline_def)
  show ?thesis
    by (intro conjI titles path opened console stored lines)
qed

text \<open>
  A listed name may hold a newline character, and such a name ending in \<^verbatim>\<open>.zip\<close>
  passes the filter. Written as the only title it takes two lines of the report, which
  then has five lines and not four.
\<close>

theorem newline_title_adds_a_line:
  "scan_names [] [''a'' @ [newline] @ ''b.zip''] = [''a'' @ [newline] @ ''b.zip'']
   \<and> length [''a'' @ [newline] @ ''b.zip''] = 1
   \<and> files (write_game_titles example_env (init Map.empty) ''/roms/nes'' ''Xbox''
               [''a'' @ [newline] @ ''b.zip''])
         ''/roms/nes/Xbox_2024-05-18.txt''
       = Some (''Console: Xbox'' @ [newline]
               @ ''Warning: We do not know if the list below is actual Xbox game titles or not. Please double-check by yourself.''
               @ [newline, newline] @ ''a'' @ [newline] @ ''b.zip'' @ [newline])
   \<and> split_lines
        (''Console: Xbox'' @ [newline]
         @ ''Warning: We do not know if the list below is actual Xbox game titles or not. Please double-check by yourself.''
         @ [newline, newline] @ ''a'' @ [newline] @ ''b.zip'' @ [newline])
       = [''Console: Xbox'',
          ''Warning: We do not know if the list below is actual Xbox game titles or not. Please double-check by yourself.'',
          [], ''a'', ''b.zip'']
   \<and> length
        (split_lines
           (''Console: Xbox'' @ [newline]
            @ ''Warning: We do not know if the list below is actual Xbox game titles or not. Please double-check by yourself.''
            @ [newline, newline] @ ''a'' @ [newline] @ ''b.zip'' @ [newline]))
       = 5"
  by (simp add: report_defs platform_defs registry_defs string_defs Let_def write_chunks_ok)

section \<open>Failures of the scan\<close>



section \<open>What counts as a title\<close>

text \<open>
  C9. The filter looks at names only. Any entry of the scanned directory whose name ends
  in \<^verbatim>\<open>.zip\<close>, whatever its type (a subdirectory as well as a file), is among the
  returned titles, and when the report is written it is one of its title lines.
\<close>

theorem zip_named_entry_listed:
  assumes "os_path_exists env directory"
    and "fs_entries env directory = Inr es"
    and "(name, kind) \<in> set es"
    and "endswith name ''.zip''"
  shows "name \<in> set (snd (get_game_titles env st directory))
    \<and> (open_error env (report_file_path env directory console_name) = None
        \<and> (\<forall>k. write_error env (report_file_path env directory console_name) k = None) \<longrightarrow>
        (\<exists>before after.
           files (process_entry env n st (console_name, directory))
             (report_file_path env directory console_name)
           = Some (unlines (report_header console_name # report_warning console_name # []
                     # before @ name # after))))"
proof -
  let ?titles = "filter (\<lambda>n. endswith n ''.zip'') (map fst es)"
  have scan: "get_game_titles env st' directory = (st', ?titles)" for st'
    using assms(1,2) by (simp add: get_game_titles_def os_listdir_def scan_names_filter)
  have mem: "name \<in> set ?titles"
    using assms(3,4) by force
  then obtain before after where split: "?titles = before @ name # after"
    by (meson split_list)
  have nonempty: "before @ name # after \<noteq> []"
    by simp
  have "files (process_entry env n st (console_name, directory))
             (report_file_path env directory console_name)
           = Some (unlines (report_header console_name # report_warning console_name # []
                     # before @ name # after))"
    if "open_error env (report_file_path env directory console_name) = None"
      and "\<forall>k. write_error env (report_file_path env directory console_name) k = None"
    using assms(1) split
    by (simp add: process_entry_def Let_def scan
        write_game_titles_success [OF nonempty that] report_lines_def)
  with mem scan show ?thesis by auto
qed

theorem zip_named_entry_listed_witness:
  "os_path_exists example_env ''/roms/snes''
   \<and> fs_entries example_env ''/roms/snes''
       = Inr [(''foo.zip'', Directory), (''GAME.ZIP'', RegularFile)]
   \<and> endswith ''foo.zip'' ''.zip''
   \<and> ''foo.zip'' \<in> set (snd (get_game_titles example_env (init Map.empty) ''/roms/snes''))
   \<and> files (process_entry example_env 1 (init Map.empty) (''Xbox'', ''/roms/snes''))
         ''/roms/snes/Xbox_2024-05-18.txt''
       = Some (unlines [report_header ''Xbox'', report_warning ''Xbox'', [], ''foo.zip''])"
proof -
  have dir: "os_path_exists example_env ''/roms/snes''"
    by (simp add: platform_defs)
  have entries: "fs_entries example_env ''/roms/snes''
                   = Inr [(''foo.zip'', Directory), (''GAME.ZIP'', RegularFile)]"
    by (simp add: example_env_def)
  have entry: "(''foo.zip'', Directory) \<in> set [(''foo.zip'', Directory), (''GAME.ZIP'', RegularFile)]"
    by simp
  have zip: "endswith ''foo.zip'' ''.zip''"
    by (simp add: endswith_def)
  have listed:
    "''foo.zip'' \<in> set (snd (get_game_titles example_env (init Map.empty) ''/roms/snes''))"
    using zip_named_entry_listed [OF dir entries entry zip] by blast
  have report: "files (process_entry example_env 1 (init Map.empty) (''Xbox'', ''/roms/snes''))
         ''/roms/snes/Xbox_2024-05-18.txt''
       = Some (unlines [report_header ''Xbox'', report_warning ''Xbox'', [], ''foo.zip''])"
    by (simp add: run_defs report_defs platform_defs registry_defs string_defs)
  from dir entries zip listed report show ?thesis by simp
qed

section \<open>The registry\<close>

text \<open>
  C10. Selecting a console that has no registry entry appends an entry with the empty
  string as its directory; selecting a console that has one leaves the registry as it
  is. In a run an entry with the empty directory is logged as not existing and skipped,
  and it is counted: the total the progress is divided by is the number of all entries.
\<close>

theorem select_console_registry:
  assumes "console_name \<noteq> []"
  shows "(dict_get (console_entries st) console_name = None \<longrightarrow>
            console_entries (select_console st console_name)
              = console_entries st @ [(console_name, [])])
    \<and> (\<forall>d. dict_get (console_entries st) console_name = Some d \<longrightarrow>
            console_entries (select_console st console_name) = console_entries st)
    \<and> process_entry env n st' (other, [])
        = st'\<lparr>log_text := log_text st' @
                [processing_message other [],
                 ''Error: The directory '' @ quoted [] @ '' does not exist.'']\<rparr>
    \<and> (\<not> nothing_selected st' \<longrightarrow>
          start_process env st'
            = (log_message
                 (process_entries env (length (console_entries st'))
                    (st'\<lparr>log_text := log_text st' @
                            [''Debug: Start process initiated. Selected console: ''
                               @ format_opt (selected_console st'),
                             ''Debug: Console entries: ''
                               @ format_dict env (console_entries st')],
                          progress_value := 0\<rparr>)
                    (console_entries st'))
                 ''Process completed.'')\<lparr>progress_value := 100\<rparr>)"
proof -
  have new: "dict_set d k v = d @ [(k, v)]" if "dict_get d k = None"
    for d :: "(string \<times> string) list" and k v
    using that by (induction d) (auto split: if_splits)
  have same: "dict_set d k v = d" if "dict_get d k = Some v"
    for d :: "(string \<times> string) list" and k v
    using that by (induction d) (auto split: if_splits)
  have "\<not> os_path_exists env []"
    by (simp add: os_path_exists_def)
  then show ?thesis
    using assms
    by (auto simp: select_console_def log_message_def new same process_entry_missing
        start_process_def Let_def nothing_selected_def)
qed

theorem select_console_registry_witness:
  "''Sega Genesis'' \<noteq> []
   \<and> console_entries nes_and_unset
       = [(''Nintendo Entertainment System (NES)'', ''/roms/nes''), (''Sega Genesis'', [])]
   \<and> selected_console nes_and_unset = Some ''Nintendo Entertainment System (NES)''
   \<and> \<not> nothing_selected nes_and_unset
   \<and> progress_value
        (process_entries example_env (length (console_entries nes_and_unset))
           (nes_and_unset\<lparr>progress_value := 0\<rparr>) (console_entries nes_and_unset)) = 50
   \<and> progress_value (start_process example_env nes_and_unset) = 100
   \<and> drop 6 (log_text (start_process example_env nes_and_unset))
       = [processing_message ''Nintendo Entertainment System (NES)'' ''/roms/nes'',
          ''Attempting to write file to: /roms/nes/Nintendo Entertainment System (NES)_2024-05-18.txt'',
          ''Game titles have been written to /roms/nes/Nintendo Entertainment System (NES)_2024-05-18.txt'',
          processing_message ''Sega Genesis'' [],
          ''Error: The directory '' @ quoted [] @ '' does not exist.'',
          ''Process completed.'']"
proof -
  have name: "''Sega Genesis'' \<noteq> []"
    by simp
  have entries: "console_entries nes_and_unset
       = [(''Nintendo Entertainment System (NES)'', ''/roms/nes''), (''Sega Genesis'', [])]"
    by (simp add: nes_and_unset_def registry_defs)
  have selected: "selected_console nes_and_unset = Some ''Nintendo Entertainment System (NES)''"
    by (simp add: nes_and_unset_def registry_defs)
  have started: "\<not> nothing_selected nes_and_unset"
    by (simp add: nothing_selected_def entries selected)
  have half: "progress_value
        (process_entries example_env (length (console_entries nes_and_unset))
           (nes_and_unset\<lparr>progress_value := 0\<rparr>) (console_entries nes_and_unset)) = 50"
    by (simp add: entries run_defs report_defs platform_defs registry_defs string_defs)
  have run: "start_process example_env nes_and_unset
            = (log_message
                 (process_entries example_env (length (console_entries nes_and_unset))
                    (nes_and_unset\<lparr>log_text := log_text nes_and_unset @
                            [''Debug: Start process initiated. Selected console: ''
                               @ format_opt (selected_console nes_and_unset),
                             ''Debug: Console entries: ''
                               @ format_dict example_env (console_entries nes_and_unset)],
                          progress_value := 0\<rparr>)
                    (console_entries nes_and_unset))
                 ''Process completed.'')\<lparr>progress_value := 100\<rparr>"
    using select_console_registry [OF name, of _ example_env _ nes_and_unset] started
    by blast
  have final: "progress_value (start_process example_env nes_and_unset) = 100"
    by (simp add: run)
  have logged: "drop 6 (log_text (start_process example_env nes_and_unset))
       = [processing_message ''Nintendo Entertainment System (NES)'' ''/roms/nes'',
          ''Attempting to write file to: /roms/nes/Nintendo Entertainment System (NES)_2024-05-18.txt'',
          ''Game titles have been written to /roms/nes/Nintendo Entertainment System (NES)_2024-05-18.txt'',
          processing_message ''Sega Genesis'' [],
          ''Error: The directory '' @ quoted [] @ '' does not exist.'',
          ''Process completed.'']"
    unfolding run
    by (simp add: nes_and_unset_def run_defs report_defs platform_defs registry_defs
        string_defs)
  show ?thesis
    by (intro conjI name entries selected started half final logged)
qed

section \<open>The run\<close>

text \<open>
  C5, as the code has it. \<^verbatim>\<open>start_process\<close> stops before the loop, showing the
  information box and logging the information line and nothing else, exactly when no
  console is selected or the selected console has no directory or the empty directory in
  the registry. An empty registry is one such case; a registry that is not empty stops
  the run as well when the selected console has no directory. In every other state the
  run goes through all entries of the registry and logs its completion.
\<close>

theorem start_process_guard:
  "(nothing_selected st \<longleftrightarrow>
      (selected_console st = None \<or> selected_console st = Some []
       \<or> (\<exists>c. selected_console st = Some c
               \<and> (dict_get (console_entries st) c = None
                   \<or> dict_get (console_entries st) c = Some []))))
   \<and> (console_entries st = [] \<longrightarrow> nothing_selected st)
   \<and> (nothing_selected st \<longrightarrow>
        start_process env st
          = st\<lparr>log_text := log_text st @
                 [''Debug: Start process initiated. Selected console: ''
                    @ format_opt (selected_console st),
                  ''Debug: Console entries: '' @ format_dict env (console_entries st),
                  ''Info: Attempt to start process without selecting both console and directory.''],
                info_boxes := info_boxes st @
                  [''You need to select a console and a directory first!'']\<rparr>)
   \<and> (\<not> nothing_selected st \<longrightarrow>
        start_process env st
          = (log_message
               (process_entries env (length (console_entries st))
                  (st\<lparr>log_text := log_text st @
                         [''Debug: Start process initiated. Selected console: ''
                            @ format_opt (selected_console st),
                          ''Debug: Console entries: ''
                            @ format_dict env (console_entries st)],
                       progress_value := 0\<rparr>)
                  (console_entries st))
               ''Process completed.'')\<lparr>progress_value := 100\<rparr>)
   \<and> (nothing_selected st \<longleftrightarrow>
        last (log_text (start_process env st))
          = ''Info: Attempt to start process without selecting both console and directory.'')"
proof -
  have empty: "console_entries st = [] \<longrightarrow> nothing_selected st"
    by (simp add: nothing_selected_def)
  have last_halt: "nothing_selected st \<Longrightarrow> last (log_text (start_process env st))
          = ''Info: Attempt to start process without selecting both console and directory.''"
    by (simp add: start_process_halts)
  have last_run: "\<not> nothing_selected st \<Longrightarrow> last (log_text (start_process env st))
          = ''Process completed.''"
    by (simp add: start_process_runs log_message_def)
  have last_iff: "nothing_selected st \<longleftrightarrow>
        last (log_text (start_process env st))
          = ''Info: Attempt to start process without selecting both console and directory.''"
    using last_halt last_run by (cases "nothing_selected st") simp_all
  show ?thesis
    using nothing_selected_iff [of st] empty start_process_halts [of st env]
      start_process_runs [of st env] last_iff
    by blast
qed

theorem start_process_guard_witness:
  "console_entries only_selected = [(''Sega Genesis'', [])]
   \<and> nothing_selected only_selected
   \<and> last (log_text (start_process example_env only_selected))
       = ''Info: Attempt to start process without selecting both console and directory.''
   \<and> files (start_process example_env only_selected) = Map.empty
   \<and> console_entries (init Map.empty) = []
   \<and> nothing_selected (init Map.empty)
   \<and> \<not> nothing_selected missing_then_nes
   \<and> last (log_text (start_process example_env missing_then_nes)) = ''Process completed.''"
proof -
  have entries: "console_entries only_selected = [(''Sega Genesis'', [])]"
    by (simp add: only_selected_def registry_defs)
  have halted: "nothing_selected only_selected"
    by (simp add: only_selected_def registry_defs nothing_selected_def)
  have info: "last (log_text (start_process example_env only_selected))
       = ''Info: Attempt to start process without selecting both console and directory.''"
    using start_process_guard [of only_selected example_env] halted by blast
  have untouched: "files (start_process example_env only_selected) = Map.empty"
    using start_process_guard [of only_selected example_env] halted
    by (simp add: only_selected_def registry_defs)
  have none: "console_entries (init Map.empty) = []"
    by (simp add: init_def)
  have unselected: "nothing_selected (init Map.empty)"
    using start_process_guard [of "init Map.empty" example_env] none by blast
  have started: "\<not> nothing_selected missing_then_nes"
    by (simp add: missing_then_nes_def registry_defs nothing_selected_def)
  have "last (log_text (start_process example_env missing_then_nes))
          \<noteq> ''Info: Attempt to start process without selecting both console and directory.''"
    using start_process_guard [of missing_then_nes example_env] started by blast
  have completed:
    "last (log_text (start_process example_env missing_then_nes)) = ''Process completed.''"
    using start_process_guard [of missing_then_nes example_env] started
    by (simp add: log_message_def)
  show ?thesis
    by (intro conjI entries halted info untouched none unselected started completed)
qed

text \<open>
  A registry that is not empty, holding a directory that exists, and yet no entry is
  processed: the console selected last has no directory.
\<close>

theorem start_process_nonempty_registry_halts:
  "console_entries nes_then_unset
     = [(''Nintendo Entertainment System (NES)'', ''/roms/nes''), (''Sega Genesis'', [])]
   \<and> selected_console nes_then_unset = Some ''Sega Genesis''
   \<and> start_process example_env nes_then_unset
       = nes_then_unset
           \<lparr>log_text := log_text nes_then_unset @
              [''Debug: Start process initiated. Selected console: Sega Genesis'',
               ''Debug: Console entries: '' @
                 plain_format_dict
                   [(''Nintendo Entertainment System (NES)'', ''/roms/nes''),
                    (''Sega Genesis'', [])],
               ''Info: Attempt to start process without selecting both console and directory.''],
            info_boxes := [''You need to select a console and a directory first!'']\<rparr>"
  by (simp add: nes_then_unset_def registry_defs start_process_def nothing_selected_def
      Let_def example_env_def)

text \<open>
  C6. Once the run has started it goes through every entry of the registry, in the order
  of the registry, whatever happens to earlier entries: the log gains one
  \<^verbatim>\<open>Processing\<close> line per entry, in that order, then the completion line, once and
  last, and the progress ends at 100. With a missing directory before a valid one, one
  error line is logged for the first and the report of the second is written.
\<close>

theorem start_process_completes:
  assumes "\<not> nothing_selected st"
  shows "\<exists>ls. log_text (start_process env st)
            = log_text st
              @ [''Debug: Start process initiated. Selected console: ''
                   @ format_opt (selected_console st),
                 ''Debug: Console entries: '' @ format_dict env (console_entries st)]
              @ ls @ [''Process completed.'']
          \<and> filter (\<lambda>l. startswith l ''Processing '') ls
              = map (\<lambda>(console_name, directory). processing_message console_name directory)
                  (console_entries st)
          \<and> ''Process completed.'' \<notin> set ls
          \<and> progress_value (start_process env st) = 100"
proof -
  let ?st3 = "st\<lparr>log_text := log_text st @
                 [''Debug: Start process initiated. Selected console: ''
                    @ format_opt (selected_console st),
                  ''Debug: Console entries: '' @ format_dict env (console_entries st)],
               progress_value := 0\<rparr>"
  from process_entries_log [of env "length (console_entries st)" ?st3 "console_entries st"]
  obtain ls where ls: "log_text (process_entries env (length (console_entries st)) ?st3
        (console_entries st)) = log_text ?st3 @ ls"
      "filter (\<lambda>l. startswith l ''Processing '') ls
            = map (\<lambda>(console_name, directory). processing_message console_name directory)
                (console_entries st)"
      "''Process completed.'' \<notin> set ls"
    by auto
  have "log_text (start_process env st)
            = log_text st
              @ [''Debug: Start process initiated. Selected console: ''
                   @ format_opt (selected_console st),
                 ''Debug: Console entries: '' @ format_dict env (console_entries st)]
              @ ls @ [''Process completed.'']"
    using ls(1) by (simp add: start_process_runs [OF assms] log_message_def)
  moreover have "progress_value (start_process env st) = 100"
    by (simp add: start_process_runs [OF assms])
  ultimately show ?thesis
    using ls(2,3) by blast
qed

theorem start_process_completes_witness:
  "\<not> nothing_selected missing_then_nes
   \<and> console_entries missing_then_nes
       = [(''Atari 2600'', ''/missing''),
          (''Nintendo Entertainment System (NES)'', ''/roms/nes'')]
   \<and> drop 7 (log_text (start_process example_env missing_then_nes))
       = [processing_message ''Atari 2600'' ''/missing'',
          ''Error: The directory '' @ quoted ''/missing'' @ '' does not exist.'',
          processing_message ''Nintendo Entertainment System (NES)'' ''/roms/nes'',
          ''Attempting to write file to: /roms/nes/Nintendo Entertainment System (NES)_2024-05-18.txt'',
          ''Game titles have been written to /roms/nes/Nintendo Entertainment System (NES)_2024-05-18.txt'',
          ''Process completed.'']
   \<and> progress_value (start_process example_env missing_then_nes) = 100
   \<and> files (start_process example_env missing_then_nes)
         ''/roms/nes/Nintendo Entertainment System (NES)_2024-05-18.txt''
       = Some (unlines [report_header ''Nintendo Entertainment System (NES)'',
                        report_warning ''Nintendo Entertainment System (NES)'', [],
                        ''Mega Man.zip''])"
proof -
  have started: "\<not> nothing_selected missing_then_nes"
    by (simp add: missing_then_nes_def registry_defs nothing_selected_def)
  have entries: "console_entries missing_then_nes
       = [(''Atari 2600'', ''/missing''),
          (''Nintendo Entertainment System (NES)'', ''/roms/nes'')]"
    by (simp add: missing_then_nes_def registry_defs)
  have full: "progress_value (start_process example_env missing_then_nes) = 100"
    using start_process_completes [OF started, of example_env] by blast
  have logged: "drop 7 (log_text (start_process example_env missing_then_nes))
       = [processing_message ''Atari 2600'' ''/missing'',
          ''Error: The directory '' @ quoted ''/missing'' @ '' does not exist.'',
          processing_message ''Nintendo Entertainment System (NES)'' ''/roms/nes'',
          ''Attempting to write file to: /roms/nes/Nintendo Entertainment System (NES)_2024-05-18.txt'',
          ''Game titles have been written to /roms/nes/Nintendo Entertainment System (NES)_2024-05-18.txt'',
          ''Process completed.'']"
    unfolding start_process_runs [OF started]
    by (simp add: missing_then_nes_def run_defs report_defs platform_defs registry_defs
        string_defs)
  have report: "files (start_process example_env missing_then_nes)
         ''/roms/nes/Nintendo Entertainment System (NES)_2024-05-18.txt''
       = Some (unlines [report_header ''Nintendo Entertainment System (NES)'',
                        report_warning ''Nintendo Entertainment System (NES)'', [],
                        ''Mega Man.zip''])"
    unfolding start_process_runs [OF started]
    by (simp add: missing_then_nes_def run_defs report_defs platform_defs registry_defs
        string_defs)
  show ?thesis
    by (intro conjI started entries logged full report)
qed

text \<open>
  C4, evaluated. In the registry with a missing directory before a valid one the total is
  2. After the first entry, which fails, the progress is still 0 and not one half of
  100; after the second it is 50; it becomes 100 only by the assignment that follows the
  loop. The branch for a missing directory leaves the loop body before the progress is
  advanced, whereas an entry whose listing or writing fails advances it.
\<close>

theorem progress_skips_missing_directory:
  "console_entries missing_then_nes
     = [(''Atari 2600'', ''/missing''),
        (''Nintendo Entertainment System (NES)'', ''/roms/nes'')]
   \<and> progress_value
        (process_entry example_env 2 (missing_then_nes\<lparr>progress_value := 0\<rparr>)
           (''Atari 2600'', ''/missing'')) = 0
   \<and> progress_value
        (process_entries example_env 2 (missing_then_nes\<lparr>progress_value := 0\<rparr>)
           (console_entries missing_then_nes)) = 50
   \<and> progress_value (start_process example_env missing_then_nes) = 100"
proof -
  have started: "\<not> nothing_selected missing_then_nes"
    by (simp add: missing_then_nes_def registry_defs nothing_selected_def)
  have entries: "console_entries missing_then_nes
       = [(''Atari 2600'', ''/missing''),
          (''Nintendo Entertainment System (NES)'', ''/roms/nes'')]"
    by (simp add: missing_then_nes_def registry_defs)
  have first: "progress_value
        (process_entry example_env 2 (missing_then_nes\<lparr>progress_value := 0\<rparr>)
           (''Atari 2600'', ''/missing'')) = 0"
    by (simp add: process_entry_missing platform_defs)
  have both: "progress_value
        (process_entries example_env 2 (missing_then_nes\<lparr>progress_value := 0\<rparr>)
           (console_entries missing_then_nes)) = 50"
    unfolding entries
    by (simp add: run_defs report_defs platform_defs registry_defs string_defs)
  have final: "progress_value (start_process example_env missing_then_nes) = 100"
    by (simp add: start_process_runs [OF started])
  show ?thesis
    by (intro conjI entries first both final)
qed

section \<open>The output records\<close>

text \<open>
  C8. In every state the event loop reaches, and after any part of a run, the output
  records hold at most one entry per console name. A write that succeeds sets the record
  of its console to the path of the file just written and leaves the records of all other
  consoles as they are; a call with no titles or with a failing write leaves the records
  unchanged; selecting a console, choosing a directory and scanning never change them.
  One pass of the loop sets the record of its console exactly when the directory exists,
  the scan finds titles and the write succeeds, and changes no record otherwise. After
  the loop, and after a whole run, every record is a record held before or the report
  path of an entry of this run whose directory exists, whose scan found titles and whose
  write succeeded; a run that stops before the loop changes no record. So the record of
  a console is the path of its most recent successful write.
\<close>

theorem output_files_records:
  "distinct (map fst (output_files (mainloop (init fs) events)))
   \<and> (distinct (map fst (output_files st)) \<longrightarrow>
        distinct (map fst (output_files (process_entries env n st entries))))
   \<and> (game_titles \<noteq> []
        \<and> snd (write_file env (report_file_path env directory console_name)
                 (report_chunks console_name game_titles) (files st)) = None \<longrightarrow>
        dict_get (output_files (write_game_titles env st directory console_name game_titles))
            console_name
          = Some (report_file_path env directory console_name)
        \<and> (\<forall>other. other \<noteq> console_name \<longrightarrow>
              dict_get
                (output_files (write_game_titles env st directory console_name game_titles))
                other
              = dict_get (output_files st) other))
   \<and> (game_titles = []
        \<or> snd (write_file env (report_file_path env directory console_name)
                 (report_chunks console_name game_titles) (files st)) \<noteq> None \<longrightarrow>
        output_files (write_game_titles env st directory console_name game_titles)
          = output_files st)
   \<and> output_files (select_console st name) = output_files st
   \<and> output_files (browse_directory st chosen) = output_files st
   \<and> output_files (fst (get_game_titles env st directory)) = output_files st
   \<and> output_files (process_entry env n st (console_name, directory))
       = (if os_path_exists env directory
             \<and> snd (get_game_titles env st directory) \<noteq> []
             \<and> snd (write_file env (report_file_path env directory console_name)
                      (report_chunks console_name (snd (get_game_titles env st directory)))
                      (files st)) = None
          then dict_set (output_files st) console_name
                 (report_file_path env directory console_name)
          else output_files st)
   \<and> (\<forall>c p. dict_get (output_files (process_entries env n st entries)) c = Some p \<longrightarrow>
          dict_get (output_files st) c = Some p
          \<or> (\<exists>d. (c, d) \<in> set entries
                \<and> p = report_file_path env d c
                \<and> os_path_exists env d
                \<and> snd (get_game_titles env st d) \<noteq> []
                \<and> snd (write_file env p
                         (report_chunks c (snd (get_game_titles env st d))) (files st))
                    = None))
   \<and> (\<forall>c p. dict_get (output_files (start_process env st)) c = Some p \<longrightarrow>
          dict_get (output_files st) c = Some p
          \<or> (\<not> nothing_selected st
              \<and> (\<exists>d. (c, d) \<in> set (console_entries st)
                    \<and> p = report_file_path env d c
                    \<and> os_path_exists env d
                    \<and> snd (get_game_titles env st d) \<noteq> []
                    \<and> snd (write_file env p
                             (report_chunks c (snd (get_game_titles env st d))) (files st))
                        = None)))
   \<and> (nothing_selected st \<longrightarrow> output_files (start_process env st) = output_files st)"
proof -
  have "distinct (map fst (output_files (init fs)))"
    by (simp add: init_def)
  then have reachable: "distinct (map fst (output_files (mainloop (init fs) events)))"
    by (rule mainloop_distinct)
  have part: "distinct (map fst (output_files st)) \<longrightarrow>
        distinct (map fst (output_files (process_entries env n st entries)))"
    by (simp add: process_entries_distinct)
  have success: "game_titles \<noteq> []
        \<and> snd (write_file env (report_file_path env directory console_name)
                 (report_chunks console_name game_titles) (files st)) = None \<longrightarrow>
        dict_get (output_files (write_game_titles env st directory console_name game_titles))
            console_name
          = Some (report_file_path env directory console_name)
        \<and> (\<forall>other. other \<noteq> console_name \<longrightarrow>
              dict_get
                (output_files (write_game_titles env st directory console_name game_titles))
                other
              = dict_get (output_files st) other)"
    by (simp add: write_game_titles_output_files dict_get_set)
  have failure: "game_titles = []
        \<or> snd (write_file env (report_file_path env directory console_name)
                 (report_chunks console_name game_titles) (files st)) \<noteq> None \<longrightarrow>
        output_files (write_game_titles env st directory console_name game_titles)
          = output_files st"
    by (auto simp: write_game_titles_output_files)
  have entry: "output_files (process_entry env n st (console_name, directory))
       = (if os_path_exists env directory
             \<and> snd (get_game_titles env st directory) \<noteq> []
             \<and> snd (write_file env (report_file_path env directory console_name)
                      (report_chunks console_name (snd (get_game_titles env st directory)))
                      (files st)) = None
          then dict_set (output_files st) console_name
                 (report_file_path env directory console_name)
          else output_files st)"
    by (rule process_entry_output_files)
  have loop: "\<forall>c p. dict_get (output_files (process_entries env n st entries)) c = Some p \<longrightarrow>
          dict_get (output_files st) c = Some p
          \<or> (\<exists>d. (c, d) \<in> set entries
                \<and> p = report_file_path env d c
                \<and> os_path_exists env d
                \<and> snd (get_game_titles env st d) \<noteq> []
                \<and> snd (write_file env p
                         (report_chunks c (snd (get_game_titles env st d))) (files st))
                    = None)"
    using process_entries_records [of env n st entries _ _ st "files st"] by blast
  have run: "\<forall>c p. dict_get (output_files (start_process env st)) c = Some p \<longrightarrow>
          dict_get (output_files st) c = Some p
          \<or> (\<not> nothing_selected st
              \<and> (\<exists>d. (c, d) \<in> set (console_entries st)
                    \<and> p = report_file_path env d c
                    \<and> os_path_exists env d
                    \<and> snd (get_game_titles env st d) \<noteq> []
                    \<and> snd (write_file env p
                             (report_chunks c (snd (get_game_titles env st d))) (files st))
                        = None))"
    using start_process_records [of env st] by blast
  have halted: "nothing_selected st \<longrightarrow> output_files (start_process env st) = output_files st"
    by (simp add: start_process_output_files)
  show ?thesis
    by (intro conjI reachable part success failure select_console_output_files
        browse_directory_output_files get_game_titles_output_files entry loop run halted)
qed

theorem output_files_records_witness:
  "output_files (mainloop (init Map.empty) two_runs)
     = [(''Nintendo 64'', ''/roms/nes/Nintendo 64_2024-05-19.txt'')]
   \<and> distinct (map fst (output_files (mainloop (init Map.empty) two_runs)))
   \<and> snd (write_file next_day_env (report_file_path next_day_env ''/roms/readonly'' ''Xbox'')
            (report_chunks ''Xbox'' [''a.zip'']) (files (init Map.empty)))
       = Some PermissionError
   \<and> output_files
        (write_game_titles next_day_env (init Map.empty) ''/roms/readonly'' ''Xbox'' [''a.zip''])
       = output_files (init Map.empty)
   \<and> snd (write_file example_env (report_file_path example_env ''/roms/nes'' ''Xbox'')
            (report_chunks ''Xbox'' [''Mega Man.zip'']) (files (init Map.empty)))
       = None
   \<and> dict_get
        (output_files
           (write_game_titles example_env (init Map.empty) ''/roms/nes'' ''Xbox''
              [''Mega Man.zip'']))
        ''Xbox''
       = Some (report_file_path example_env ''/roms/nes'' ''Xbox'')
   \<and> \<not> os_path_exists example_env ''/missing''
   \<and> output_files (process_entry example_env 2 (init Map.empty) (''Atari 2600'', ''/missing''))
       = output_files (init Map.empty)
   \<and> os_path_exists example_env ''/roms/readonly''
   \<and> snd (get_game_titles example_env (init Map.empty) ''/roms/readonly'') = [''a.zip'']
   \<and> output_files
        (process_entry next_day_env 2 (init Map.empty) (''Xbox'', ''/roms/readonly''))
       = output_files (init Map.empty)
   \<and> output_files (process_entry example_env 2 (init Map.empty) (''Xbox'', ''/roms/nes''))
       = [(''Xbox'', ''/roms/nes/Xbox_2024-05-18.txt'')]
   \<and> nothing_selected only_selected
   \<and> output_files (start_process example_env only_selected) = output_files only_selected"
proof -
  have records: "output_files (mainloop (init Map.empty) two_runs)
     = [(''Nintendo 64'', ''/roms/nes/Nintendo 64_2024-05-19.txt'')]"
    by (simp add: two_runs_def next_day_env_def run_defs report_defs platform_defs
        registry_defs string_defs)
  have unique: "distinct (map fst (output_files (mainloop (init Map.empty) two_runs)))"
    using output_files_records [where fs = Map.empty and events = two_runs] by blast
  have refused:
    "snd (write_file next_day_env (report_file_path next_day_env ''/roms/readonly'' ''Xbox'')
            (report_chunks ''Xbox'' [''a.zip'']) (files (init Map.empty)))
       = Some PermissionError"
    by (simp add: next_day_env_def write_file_def platform_defs string_defs)
  then have unchanged: "output_files
        (write_game_titles next_day_env (init Map.empty) ''/roms/readonly'' ''Xbox'' [''a.zip''])
       = output_files (init Map.empty)"
    using output_files_records [where st = "init Map.empty" and game_titles = "[''a.zip'']"
        and env = next_day_env and directory = "''/roms/readonly''"
        and console_name = "''Xbox''"]
    by simp
  have written:
    "snd (write_file example_env (report_file_path example_env ''/roms/nes'' ''Xbox'')
            (report_chunks ''Xbox'' [''Mega Man.zip'']) (files (init Map.empty)))
       = None"
    by (simp add: write_file_def report_chunks_def platform_defs string_defs)
  then have recorded: "dict_get
        (output_files
           (write_game_titles example_env (init Map.empty) ''/roms/nes'' ''Xbox''
              [''Mega Man.zip'']))
        ''Xbox''
       = Some (report_file_path example_env ''/roms/nes'' ''Xbox'')"
    using output_files_records [where st = "init Map.empty"
        and game_titles = "[''Mega Man.zip'']" and env = example_env
        and directory = "''/roms/nes''" and console_name = "''Xbox''"]
    by simp
  have missing: "\<not> os_path_exists example_env ''/missing''"
    by (simp add: platform_defs)
  have skipped:
    "output_files (process_entry example_env 2 (init Map.empty) (''Atari 2600'', ''/missing''))
       = output_files (init Map.empty)"
    using output_files_records [where st = "init Map.empty" and env = example_env
        and directory = "''/missing''" and console_name = "''Atari 2600''" and n = 2]
      missing
    by simp
  have readonly: "os_path_exists example_env ''/roms/readonly''"
    by (simp add: platform_defs)
  have archive:
    "snd (get_game_titles example_env (init Map.empty) ''/roms/readonly'') = [''a.zip'']"
    by (simp add: get_game_titles_def platform_defs string_defs)
  have archive': "snd (get_game_titles next_day_env (init Map.empty) ''/roms/readonly'')
      = [''a.zip'']"
    by (simp add: next_day_env_def get_game_titles_def platform_defs string_defs)
  have failed: "output_files
        (process_entry next_day_env 2 (init Map.empty) (''Xbox'', ''/roms/readonly''))
       = output_files (init Map.empty)"
    using output_files_records [where st = "init Map.empty" and env = next_day_env
        and directory = "''/roms/readonly''" and console_name = "''Xbox''" and n = 2]
      refused
    by (simp add: archive')
  have succeeded:
    "output_files (process_entry example_env 2 (init Map.empty) (''Xbox'', ''/roms/nes''))
       = [(''Xbox'', ''/roms/nes/Xbox_2024-05-18.txt'')]"
    by (simp add: run_defs report_defs platform_defs registry_defs string_defs)
  have halted: "nothing_selected only_selected"
    by (simp add: only_selected_def registry_defs nothing_selected_def)
  then have kept:
    "output_files (start_process example_env only_selected) = output_files only_selected"
    using output_files_records [where st = only_selected and env = example_env]
    by blast
  show ?thesis
    by (intro conjI records unique refused unchanged written recorded missing skipped
        readonly archive failed succeeded halted kept)
qed

end
